theory Spec2Isabelle
  imports Complex_Main "HOL-Library.Word"
begin

unbundle bit_operations_syntax

section \<open>Peripheral node (motoUNO/src/main.cpp)\<close>

text \<open>
  The peripheral is an 8-bit AVR: \<open>byte\<close> and \<open>char\<close> are 8 bits, \<open>int\<close> and
  \<open>int16_t\<close> are 16 bits, \<open>unsigned long\<close> (the type of \<open>millis()\<close>) is 32 bits.
  The globals of the sketch are the fields of one record; every handler takes the
  record and returns it updated. What a handler reads from hardware (the clock, the
  card reader, the sensors, the bytes of a bus transaction) is a parameter; the two
  reads of \<open>millis()\<close> in one call of a task give the same value \<open>now\<close>.
  Serial output of the peripheral is not modelled; calls to the audio player are
  recorded in order in \<open>dfplayer\<close>.
\<close>

type_synonym byte = "8 word"

definition I2C_PACKET_SIZE :: nat where "I2C_PACKET_SIZE = 10"
definition FLAG_IDLE :: byte where "FLAG_IDLE = 0x00"
definition FLAG_RFID_NEW :: byte where "FLAG_RFID_NEW = 0x01"
definition FLAG_ENV_NEW :: byte where "FLAG_ENV_NEW = 0x02"

definition RFID_CHECK_INTERVAL_MS :: "32 word" where "RFID_CHECK_INTERVAL_MS = 200"
definition ENV_CHECK_INTERVAL_MS :: "32 word" where "ENV_CHECK_INTERVAL_MS = 2500"

text \<open>The command tags are the character literals \<open>'P'\<close>, \<open>'+'\<close> and \<open>'-'\<close>.\<close>

definition chr_P :: byte where "chr_P = 0x50"
definition chr_plus :: byte where "chr_plus = 0x2B"
definition chr_minus :: byte where "chr_minus = 0x2D"

datatype dfp_call = Play byte | VolumeUp | VolumeDown

record uno =
  newCardDataAvailable :: bool
  newENVDataAvailable :: bool
  IsCMD :: bool
  command_to_run :: byte
  command_param :: byte
  payload :: "byte list"
  lastRfidCheckMillis :: "32 word"
  lastENVCheckMillis :: "32 word"
  dfplayer :: "dfp_call list"

definition uno_init :: uno where
  "uno_init = \<lparr> newCardDataAvailable = False, newENVDataAvailable = False,
      IsCMD = False, command_to_run = 0, command_param = 0,
      payload = replicate I2C_PACKET_SIZE 0,
      lastRfidCheckMillis = 0, lastENVCheckMillis = 0, dfplayer = [] \<rparr>"

text \<open>
  \<open>mfrc522.uid\<close>: the number of identifier bytes and the reader's fixed array of
  10 bytes. \<open>handleRFID\<close> receives \<open>Some uid\<close> when
  \<open>PICC_IsNewCardPresent() && PICC_ReadCardSerial()\<close> holds and \<open>None\<close> otherwise.
\<close>

record uid =
  uid_size :: byte
  uidByte :: "byte list"

text \<open>One pass of the loop \<open>for (byte i = 0; i < I2C_PACKET_SIZE - 1; i++)\<close>.\<close>

definition rfid_fill :: "uid \<Rightarrow> nat \<Rightarrow> byte list \<Rightarrow> byte list" where
  "rfid_fill u i p =
     (if i < unat (uid_size u) then p[i + 1 := uidByte u ! i] else p[i + 1 := 0])"

definition handleRFID :: "32 word \<Rightarrow> uid option \<Rightarrow> uno \<Rightarrow> uno" where
  "handleRFID now picc s =
     (if now - lastRfidCheckMillis s < RFID_CHECK_INTERVAL_MS then s
      else let s1 = s\<lparr>lastRfidCheckMillis := now\<rparr> in
        if newCardDataAvailable s1 then s1
        else case picc of
          None \<Rightarrow> s1
        | Some u \<Rightarrow>
            if uid_size u > 0
            then s1\<lparr>payload :=
                      fold (rfid_fill u) [0 ..< I2C_PACKET_SIZE - 1]
                        ((payload s1)[0 := FLAG_RFID_NEW]),
                    newCardDataAvailable := True\<rparr>
            else s1)"

text \<open>
  The environment sample as \<open>handleENVSensor\<close> has it after its casts:
  \<open>temp_i16 = (int16_t)(temp_f * 10)\<close>, \<open>(byte)humid_f\<close> and
  \<open>light_i16 = (int16_t)light_i\<close>. The handler receives \<open>None\<close> when
  \<open>isnan(temp_f) || isnan(humid_f)\<close>. The floating-point multiplication and the
  casts from \<open>float\<close> are outside the model.
\<close>

record env_sample =
  temp_i16 :: "16 word"
  humid_b :: byte
  light_i16 :: "16 word"

text \<open>\<open>(byte)(x >> 8)\<close> and \<open>(byte)(x & 0xFF)\<close> of a 16-bit signed value.\<close>

definition hi_byte :: "16 word \<Rightarrow> byte" where
  "hi_byte x = ucast (signed_drop_bit 8 x)"

definition lo_byte :: "16 word \<Rightarrow> byte" where
  "lo_byte x = ucast (x AND 0xFF)"

definition env_payload :: "env_sample \<Rightarrow> byte list \<Rightarrow> byte list" where
  "env_payload e p =
     p[0 := FLAG_ENV_NEW,
       1 := hi_byte (temp_i16 e),
       2 := lo_byte (temp_i16 e),
       3 := humid_b e,
       4 := hi_byte (light_i16 e),
       5 := lo_byte (light_i16 e),
       6 := 0, 7 := 0, 8 := 0, 9 := 0]"

definition handleENVSensor :: "32 word \<Rightarrow> env_sample option \<Rightarrow> uno \<Rightarrow> uno" where
  "handleENVSensor now env s =
     (if now - lastENVCheckMillis s < ENV_CHECK_INTERVAL_MS then s
      else let s1 = s\<lparr>lastENVCheckMillis := now\<rparr> in
        if newENVDataAvailable s1 then s1
        else case env of
          None \<Rightarrow> s1
        | Some e \<Rightarrow> s1\<lparr>payload := env_payload e (payload s1),
                        newENVDataAvailable := True\<rparr>)"

definition idle_payload :: "byte list" where
  "idle_payload = FLAG_IDLE # replicate (I2C_PACKET_SIZE - 1) 0"

text \<open>\<open>requestEvent\<close> returns the 10 bytes it hands to \<open>Wire.write\<close>.\<close>

definition requestEvent :: "uno \<Rightarrow> byte list \<times> uno" where
  "requestEvent s =
     (if newCardDataAvailable s
      then (take I2C_PACKET_SIZE (payload s), s\<lparr>newCardDataAvailable := False\<rparr>)
      else if newENVDataAvailable s
      then (take I2C_PACKET_SIZE (payload s), s\<lparr>newENVDataAvailable := False\<rparr>)
      else (idle_payload, s))"

definition handleCommands :: "uno \<Rightarrow> uno" where
  "handleCommands s =
     (if \<not> IsCMD s then s
      else let s1 =
            (if command_to_run s = chr_P
               then s\<lparr>dfplayer := dfplayer s @ [Play (command_param s)]\<rparr>
             else if command_to_run s = chr_plus
               then s\<lparr>dfplayer := dfplayer s @ [VolumeUp]\<rparr>
             else if command_to_run s = chr_minus
               then s\<lparr>dfplayer := dfplayer s @ [VolumeDown]\<rparr>
             else s)
           in s1\<lparr>IsCMD := False\<rparr>)"

text \<open>
  \<open>receiveEvent\<close>: \<open>wire\<close> is the content of the receive buffer, so
  \<open>Wire.available()\<close> is its length and \<open>Wire.read()\<close> takes its head.
\<close>

definition receiveEvent :: "byte list \<Rightarrow> uno \<Rightarrow> uno" where
  "receiveEvent wire s =
     (case wire of
        [] \<Rightarrow> s
      | command # rest \<Rightarrow>
          let s1 =
            (if command = chr_P
               then (case rest of [] \<Rightarrow> s | t # _ \<Rightarrow> s\<lparr>command_param := t\<rparr>)
             else if command = chr_plus then s\<lparr>command_param := 0\<rparr>
             else if command = chr_minus then s\<lparr>command_param := 0\<rparr>
             else s)
          in s1\<lparr>command_to_run := command, IsCMD := True\<rparr>)"

text \<open>
  States that the handlers can reach from power-up, in any interleaving of the main
  loop's tasks and the two bus callbacks.
\<close>

inductive reachable :: "uno \<Rightarrow> bool" where
  r_init: "reachable uno_init"
| r_rfid: "reachable s \<Longrightarrow> reachable (handleRFID now picc s)"
| r_env: "reachable s \<Longrightarrow> reachable (handleENVSensor now env s)"
| r_cmd: "reachable s \<Longrightarrow> reachable (handleCommands s)"
| r_request: "reachable s \<Longrightarrow> reachable (snd (requestEvent s))"
| r_receive: "reachable s \<Longrightarrow> reachable (receiveEvent wire s)"

section \<open>Coordinator node (motoMCU/src/main.cpp)\<close>

text \<open>
  The coordinator is an ESP8266: \<open>int\<close> and \<open>unsigned long\<close> are 32 bits. Its
  \<open>float\<close> values are modelled as reals: rounding is outside the model. The lines
  the bus handler and the reconnect task print are recorded in \<open>serial\<close>, the calls of
  \<open>Wire.requestFrom\<close> are counted in \<open>requests\<close>, the pulses of the blue LED in
  \<open>b_pulses\<close> and the calls of \<open>WiFi.reconnect\<close> in \<open>reconnects\<close>. The calls of
  \<open>digitalWrite\<close> that the blink task makes are recorded in order, pin and level, in
  \<open>blink_writes\<close>.
\<close>

definition HIGH :: byte where "HIGH = 0x1"
definition LOW :: byte where "LOW = 0x0"

datatype led_pin = LED_G_PIN | LED_B_PIN

datatype serial_line =
    I2C_Online
  | I2C_Lost byte
  | Received_RFID string
  | Received_ENV real int int
  | Received_Preserved
  | WiFi_Reconnecting

record mcu =
  isUnoOnline :: bool
  lastI2CCheckMillis :: "32 word"
  lastRfidFromUno :: string
  lastWifiCheckMillis :: "32 word"
  isBlinking :: bool
  currentTemperature :: real
  currentHumidity :: real
  lightLevel :: int
  serial :: "serial_line list"
  requests :: nat
  b_pulses :: nat
  reconnects :: nat
  blinkPin :: byte
  blinkInterval :: "16 word"
  previousBlinkMillis :: "32 word"
  blinkLedState :: byte
  blink_writes :: "(led_pin \<times> byte) list"

definition mcu_init :: mcu where
  "mcu_init = \<lparr> isUnoOnline = False, lastI2CCheckMillis = 0, lastRfidFromUno = ''N/A'',
      lastWifiCheckMillis = 0, isBlinking = False, currentTemperature = - 999,
      currentHumidity = 0, lightLevel = 0, serial = [], requests = 0, b_pulses = 0,
      reconnects = 0, blinkPin = 0x20, blinkInterval = 0, previousBlinkMillis = 0,
      blinkLedState = HIGH, blink_writes = [] \<rparr>"

definition I2C_CHECK_INTERVAL_MS :: "32 word" where "I2C_CHECK_INTERVAL_MS = 500"
definition WIFI_RECONNECT_INTERVAL_MS :: "32 word" where "WIFI_RECONNECT_INTERVAL_MS = 10000"

text \<open>
  \<open>String(b, HEX)\<close> of a byte: its digits in base 16, lower case, without leading
  zeros. \<open>toUpperCase\<close> maps the letters a to z to A to Z and leaves other
  characters alone.
\<close>

definition hex_digit :: "nat \<Rightarrow> char" where
  "hex_digit d = ''0123456789abcdef'' ! d"

definition String_HEX :: "byte \<Rightarrow> string" where
  "String_HEX b =
     (if unat b < 16 then [hex_digit (unat b)]
      else [hex_digit (unat b div 16), hex_digit (unat b mod 16)])"

definition toupper :: "char \<Rightarrow> char" where
  "toupper c =
     (case map_of (zip ''abcdefghijklmnopqrstuvwxyz'' ''ABCDEFGHIJKLMNOPQRSTUVWXYZ'') c of
        Some u \<Rightarrow> u
      | None \<Rightarrow> c)"

definition toUpperCase :: "string \<Rightarrow> string" where
  "toUpperCase str = map toupper str"

text \<open>One pass of the loop \<open>for (int i = 1; i < 5; i++)\<close> that builds \<open>uidString\<close>.\<close>

definition uid_append :: "byte list \<Rightarrow> nat \<Rightarrow> string \<Rightarrow> string" where
  "uid_append packetBuffer i uidString =
     (uidString @ (if packetBuffer ! i < 0x10 then ''0'' else [])) @ String_HEX (packetBuffer ! i)"

text \<open>
  \<open>(packetBuffer[i] << 8) | packetBuffer[j]\<close>: both bytes are promoted to the 32-bit
  \<open>int\<close> before the shift and the or.
\<close>

definition shl8_or :: "byte \<Rightarrow> byte \<Rightarrow> int" where
  "shl8_or hi lo = sint (push_bit 8 (ucast hi :: 32 word) OR (ucast lo :: 32 word))"

text \<open>
  \<open>handleI2CCommunication\<close>: \<open>now\<close> is the value of \<open>millis()\<close> in this pass of the
  loop (the handler reads the clock for the test and again for the store; both reads
  give \<open>now\<close>) and \<open>rx\<close> the bytes the peripheral delivered for the request of 10, so the
  count \<open>Wire.requestFrom\<close> returns is \<open>length rx\<close> (never more than the 10 asked
  for) and \<open>packetBuffer\<close> is \<open>rx\<close> when that count is 10.
\<close>

definition handleI2CCommunication :: "32 word \<Rightarrow> byte list \<Rightarrow> mcu \<Rightarrow> mcu" where
  "handleI2CCommunication now rx s =
     (if now - lastI2CCheckMillis s \<ge> I2C_CHECK_INTERVAL_MS then
        let s0 = s\<lparr>lastI2CCheckMillis := now, requests := requests s + 1\<rparr> in
        if length rx = 10 then
          let s1 = (if \<not> isUnoOnline s0 then s0\<lparr>serial := serial s0 @ [I2C_Online]\<rparr> else s0)
                     \<lparr>isUnoOnline := True\<rparr>;
              statusFlag = rx ! 0
          in if statusFlag = 0x00 then s1
             else
               let s2 =
                 (if statusFlag = 0x01 then
                    let uidString = toUpperCase (fold (uid_append rx) [1 ..< 5] [])
                    in s1\<lparr>lastRfidFromUno := uidString,
                          serial := serial s1 @ [Received_RFID uidString]\<rparr>
                  else if statusFlag = 0x02 then
                    let temp_f = real_of_int (shl8_or (rx ! 1) (rx ! 2)) / 10;
                        humid_f = uint (rx ! 3);
                        light_i = shl8_or (rx ! 4) (rx ! 5)
                    in s1\<lparr>currentTemperature := temp_f,
                          currentHumidity := real_of_int humid_f,
                          lightLevel := light_i,
                          serial := serial s1 @ [Received_ENV temp_f humid_f light_i]\<rparr>
                  else s1\<lparr>serial := serial s1 @ [Received_Preserved]\<rparr>)
               in s2\<lparr>isBlinking := False, b_pulses := b_pulses s2 + 1\<rparr>
        else
          (if isUnoOnline s0
           then s0\<lparr>serial := serial s0 @ [I2C_Lost (of_nat (length rx))]\<rparr> else s0)
            \<lparr>isUnoOnline := False, lastRfidFromUno := ''N/A''\<rparr>
      else s)"

text \<open>\<open>handleWiFiReconnect\<close>: \<open>wl_connected\<close> is \<open>WiFi.status() == WL_CONNECTED\<close>.\<close>

definition handleWiFiReconnect :: "32 word \<Rightarrow> bool \<Rightarrow> mcu \<Rightarrow> mcu" where
  "handleWiFiReconnect now wl_connected s =
     (if now - lastWifiCheckMillis s \<ge> WIFI_RECONNECT_INTERVAL_MS then
        let s0 = s\<lparr>lastWifiCheckMillis := now\<rparr> in
        if \<not> wl_connected
        then s0\<lparr>serial := serial s0 @ [WiFi_Reconnecting], reconnects := reconnects s0 + 1\<rparr>
        else s0
      else s)"

text \<open>
  The blink task. The pin selectors are the character literals \<open>'G'\<close>, \<open>'g'\<close>,
  \<open>'B'\<close>, \<open>'b'\<close>, \<open>'A'\<close> and \<open>'a'\<close>; \<open>!blinkLedState\<close> is 1 when the state is 0
  and 0 otherwise; the 16-bit interval is widened to the 32 bits of the clock for the
  comparison.
\<close>

definition chr_G :: byte where "chr_G = 0x47"
definition chr_g :: byte where "chr_g = 0x67"
definition chr_B :: byte where "chr_B = 0x42"
definition chr_b :: byte where "chr_b = 0x62"
definition chr_A :: byte where "chr_A = 0x41"
definition chr_a :: byte where "chr_a = 0x61"

definition startBlinkingLED :: "byte \<Rightarrow> 16 word \<Rightarrow> mcu \<Rightarrow> mcu" where
  "startBlinkingLED pin ms s =
     s\<lparr>isBlinking := True, blinkPin := pin, blinkInterval := ms,
       previousBlinkMillis := 0, blinkLedState := HIGH\<rparr>"

definition lnot :: "byte \<Rightarrow> byte" where
  "lnot x = (if x = 0 then 1 else 0)"

definition handleBlink :: "32 word \<Rightarrow> mcu \<Rightarrow> mcu" where
  "handleBlink currentMillis s =
     (if \<not> isBlinking s then s
      else if currentMillis - previousBlinkMillis s \<ge> ucast (blinkInterval s) then
        let s1 = s\<lparr>previousBlinkMillis := currentMillis,
                   blinkLedState := lnot (blinkLedState s)\<rparr>
        in if blinkPin s1 = chr_G \<or> blinkPin s1 = chr_g
             then s1\<lparr>blink_writes := blink_writes s1 @ [(LED_G_PIN, blinkLedState s1)]\<rparr>
           else if blinkPin s1 = chr_B \<or> blinkPin s1 = chr_b
             then s1\<lparr>blink_writes := blink_writes s1 @ [(LED_B_PIN, blinkLedState s1)]\<rparr>
           else if blinkPin s1 = chr_A \<or> blinkPin s1 = chr_a
             then s1\<lparr>blink_writes := blink_writes s1 @
                     [(LED_G_PIN, blinkLedState s1), (LED_B_PIN, blinkLedState s1)]\<rparr>
           else s1
      else s)"

text \<open>A sequence of passes of the bus handler, each with its clock value and bus answer.\<close>

fun run_polls :: "(32 word \<times> byte list) list \<Rightarrow> mcu \<Rightarrow> mcu" where
  "run_polls [] s = s"
| "run_polls ((now, rx) # ps) s = run_polls ps (handleI2CCommunication now rx s)"

text \<open>The lines that report a gain or a loss of the link.\<close>

fun is_link_line :: "serial_line \<Rightarrow> bool" where
  "is_link_line I2C_Online = True"
| "is_link_line (I2C_Lost n) = True"
| "is_link_line l = False"

definition link_lines :: "mcu \<Rightarrow> serial_line list" where
  "link_lines s = filter is_link_line (serial s)"

text \<open>
  \<open>n\<close> passes of the bus handler on a clock that starts at \<open>t0\<close> and advances by 100
  between passes; \<open>bus k\<close> is what the peripheral would answer in pass \<open>k\<close>.
\<close>

primrec run_ticks :: "32 word \<Rightarrow> (nat \<Rightarrow> byte list) \<Rightarrow> nat \<Rightarrow> mcu \<Rightarrow> mcu" where
  "run_ticks t0 bus 0 s = s"
| "run_ticks t0 bus (Suc n) s =
     handleI2CCommunication (t0 + 100 * of_nat (Suc n)) (bus (Suc n)) (run_ticks t0 bus n s)"

text \<open>
  The rendering the specification asks for: two upper-case hexadecimal digits per byte,
  the high one first.
\<close>

definition hex2_upper :: "byte \<Rightarrow> string" where
  "hex2_upper b =
     [''0123456789ABCDEF'' ! (unat b div 16), ''0123456789ABCDEF'' ! (unat b mod 16)]"

section \<open>Sample inputs and invariants\<close>

text \<open>A four-byte card, a reading of 25.0 degrees and a reading of -5.0 degrees.\<close>

definition card_DEADBEEF :: uid where
  "card_DEADBEEF = \<lparr>uid_size = 4, uidByte = [0xDE, 0xAD, 0xBE, 0xEF, 0, 0, 0, 0, 0, 0]\<rparr>"

definition env_25C :: env_sample where
  "env_25C = \<lparr>temp_i16 = 250, humid_b = 50, light_i16 = 100\<rparr>"

definition env_minus5C :: env_sample where
  "env_minus5C = \<lparr>temp_i16 = - 50, humid_b = 50, light_i16 = 100\<rparr>"

text \<open>
  The peripheral after power-up, a card read in the RFID task at 200 ms and an
  environment sample taken in the sensor task at 2500 ms, with no bus request yet.
\<close>

definition card_then_env :: uno where
  "card_then_env =
     handleENVSensor 2500 (Some env_25C) (handleRFID 200 (Some card_DEADBEEF) uno_init)"

text \<open>The coordinator after its first poll, at 500 ms, returned the 25.0 degree frame.\<close>

definition mcu_after_env :: mcu where
  "mcu_after_env =
     handleI2CCommunication 500 [0x02, 0x00, 0xFA, 0x32, 0x00, 0x64, 0, 0, 0, 0] mcu_init"

text \<open>The coordinator as \<open>setup\<close> leaves the indicator while it waits for the network:
  \<open>startBlinkingLED('G', 300)\<close>.\<close>

definition mcu_blinking :: mcu where
  "mcu_blinking = startBlinkingLED chr_G 300 mcu_init"

text \<open>
  The buffer has 10 bytes, and while an event is pending its first byte is one of the
  two event tags.
\<close>

definition frame_inv :: "uno \<Rightarrow> bool" where
  "frame_inv s \<longleftrightarrow>
     length (payload s) = I2C_PACKET_SIZE \<and>
     (newCardDataAvailable s \<or> newENVDataAvailable s \<longrightarrow>
        payload s ! 0 = FLAG_RFID_NEW \<or> payload s ! 0 = FLAG_ENV_NEW)"

section \<open>Peripheral event queue\<close>

text \<open>While an event of a kind is pending, the task of that kind changes neither the
  buffer nor the flags.\<close>

lemma rfid_offer_while_pending:
  "newCardDataAvailable s \<Longrightarrow>
   payload (handleRFID now picc s) = payload s
   \<and> newCardDataAvailable (handleRFID now picc s)
   \<and> newENVDataAvailable (handleRFID now picc s) = newENVDataAvailable s"
  by (simp add: handleRFID_def Let_def)

lemma env_offer_while_pending:
  "newENVDataAvailable s \<Longrightarrow>
   payload (handleENVSensor now env s) = payload s
   \<and> newENVDataAvailable (handleENVSensor now env s)
   \<and> newCardDataAvailable (handleENVSensor now env s) = newCardDataAvailable s"
  by (simp add: handleENVSensor_def Let_def)

text \<open>
  C1. The two sampling tasks write the same buffer. With a card pending (offered at
  200 ms, buffer tagged 0x01 with the identifier DE AD BE EF), the environment task at
  2500 ms finds its own flag clear and rewrites the buffer: the card flag is still set,
  but the bytes stored for it are now the environment frame.
\<close>

theorem C1_env_offer_overwrites_pending_card:
  "newCardDataAvailable (handleRFID 200 (Some card_DEADBEEF) uno_init)
   \<and> payload (handleRFID 200 (Some card_DEADBEEF) uno_init)
       = [0x01, 0xDE, 0xAD, 0xBE, 0xEF, 0, 0, 0, 0, 0]
   \<and> newCardDataAvailable
        (handleENVSensor 2500 (Some env_25C) (handleRFID 200 (Some card_DEADBEEF) uno_init))
   \<and> payload (handleENVSensor 2500 (Some env_25C) (handleRFID 200 (Some card_DEADBEEF) uno_init))
       = [0x02, 0x00, 0xFA, 0x32, 0x00, 0x64, 0, 0, 0, 0]"
  by code_simp

text \<open>What does hold of \<open>requestEvent\<close> in every reachable state.\<close>

lemma fold_rfid_fill:
  "length (fold (rfid_fill u) ixs p) = length p \<and> fold (rfid_fill u) ixs p ! 0 = p ! 0"
  by (induction ixs arbitrary: p) (simp_all add: rfid_fill_def)

lemma reachable_frame_inv: "reachable s \<Longrightarrow> frame_inv s"
proof (induction rule: reachable.induct)
  case r_init
  show ?case by (simp add: frame_inv_def uno_init_def)
next
  case (r_rfid s now picc)
  then show ?case
    by (cases picc)
      (auto simp: frame_inv_def handleRFID_def Let_def fold_rfid_fill I2C_PACKET_SIZE_def)
next
  case (r_env s now env)
  then show ?case
    by (cases env)
      (auto simp: frame_inv_def handleENVSensor_def Let_def env_payload_def I2C_PACKET_SIZE_def)
next
  case (r_cmd s)
  then show ?case by (simp add: frame_inv_def handleCommands_def Let_def)
next
  case (r_request s)
  then show ?case by (auto simp: frame_inv_def requestEvent_def)
next
  case (r_receive s wire)
  then show ?case
    by (auto simp: frame_inv_def receiveEvent_def Let_def split: list.splits)
qed

lemma request_idle_iff:
  assumes "reachable s"
  shows "fst (requestEvent s) = idle_payload
           \<longleftrightarrow> \<not> newCardDataAvailable s \<and> \<not> newENVDataAvailable s"
proof -
  from assms have inv: "frame_inv s" by (rule reachable_frame_inv)
  have idle0: "idle_payload ! 0 = FLAG_IDLE" by (simp add: idle_payload_def)
  show ?thesis
  proof (cases "newCardDataAvailable s \<or> newENVDataAvailable s")
    case True
    with inv have "take I2C_PACKET_SIZE (payload s) ! 0 \<noteq> FLAG_IDLE"
      by (auto simp: frame_inv_def FLAG_IDLE_def FLAG_RFID_NEW_def FLAG_ENV_NEW_def
          I2C_PACKET_SIZE_def)
    with idle0 have "take I2C_PACKET_SIZE (payload s) \<noteq> idle_payload" by auto
    with True show ?thesis by (auto simp: requestEvent_def)
  next
    case False
    then show ?thesis by (simp add: requestEvent_def)
  qed
qed

lemma request_clears_card_only:
  "newCardDataAvailable s \<Longrightarrow>
   \<not> newCardDataAvailable (snd (requestEvent s))
   \<and> newENVDataAvailable (snd (requestEvent s)) = newENVDataAvailable s
   \<and> payload (snd (requestEvent s)) = payload s"
  by (simp add: requestEvent_def)

text \<open>
  C2. In the state where the card was offered first and the environment sample second,
  both flags are set. The request callback takes the card branch, but the bytes it
  sends are the buffer, which holds the environment frame (tag 0x02): the card
  identifier is never sent. It clears the card flag only, and the following request
  sends the same environment frame a second time.
\<close>

theorem C2_card_slot_sends_env_frame:
  "newCardDataAvailable card_then_env \<and> newENVDataAvailable card_then_env
   \<and> fst (requestEvent card_then_env) = [0x02, 0x00, 0xFA, 0x32, 0x00, 0x64, 0, 0, 0, 0]
   \<and> \<not> newCardDataAvailable (snd (requestEvent card_then_env))
   \<and> newENVDataAvailable (snd (requestEvent card_then_env))
   \<and> fst (requestEvent (snd (requestEvent card_then_env)))
       = [0x02, 0x00, 0xFA, 0x32, 0x00, 0x64, 0, 0, 0, 0]"
  by code_simp

section \<open>Temperature encoding and decoding\<close>

lemma mask_255: "(0xFF :: 16 word) = mask 8"
  by (simp add: mask_eq_exp_minus_1)

text \<open>The coordinator's shift-and-or gives back the unsigned value of the 16 bits sent.\<close>

lemma shl8_or_encode: "shl8_or (hi_byte v) (lo_byte v) = uint v"
proof -
  have "push_bit 8 (ucast (hi_byte v) :: 32 word) OR (ucast (lo_byte v) :: 32 word) = ucast v"
    unfolding hi_byte_def lo_byte_def mask_255
    by (rule bit_word_eqI) (auto simp: bit_simps dest: bit_imp_le_length)
  moreover have "sint (ucast v :: 32 word) = uint v"
  proof -
    have a: "uint v < 65536" using uint_lt2p [of v] by simp
    have b: "0 \<le> uint v" by simp
    from a b have "- 2147483648 \<le> uint v \<and> uint v < 2147483648" by linarith
    then show ?thesis
      by (simp add: signed_ucast_eq signed_take_bit_int_eq_self)
  qed
  ultimately show ?thesis
    by (simp add: shl8_or_def)
qed

text \<open>So a temperature that is not negative comes back as sent.\<close>

lemma shl8_or_encode_nonneg:
  assumes "0 \<le> sint v"
  shows "shl8_or (hi_byte v) (lo_byte v) = sint v"
proof -
  have "sint v < 2 ^ 16" using sint_less [of v] by simp
  with assms have "take_bit 16 (sint v) = sint v"
    by (simp add: take_bit_int_eq_self)
  then show ?thesis
    using uint_sint [of v] by (simp add: shl8_or_encode)
qed

text \<open>The bytes 0x00, 0xFA decode to 25.0 degrees and the byte 0x32 to 50 percent.\<close>

lemma decode_25C:
  "currentTemperature mcu_after_env = 25 \<and> currentHumidity mcu_after_env = 50
   \<and> lightLevel mcu_after_env = 100"
  by (simp add: mcu_after_env_def handleI2CCommunication_def mcu_init_def
      I2C_CHECK_INTERVAL_MS_def shl8_or_def Let_def)

lemma minus5_frame:
  "fst (requestEvent (handleENVSensor 2500 (Some env_minus5C) uno_init))
     = [0x02, 0xFF, 0xCE, 0x32, 0x00, 0x64, 0, 0, 0, 0]"
  by code_simp

lemma minus5_decode:
  "currentTemperature
     (handleI2CCommunication 500 [0x02, 0xFF, 0xCE, 0x32, 0x00, 0x64, 0, 0, 0, 0] mcu_init)
     = 6548.6"
  by (simp add: handleI2CCommunication_def mcu_init_def I2C_CHECK_INTERVAL_MS_def
      shl8_or_def Let_def)

text \<open>
  C3. The raw value -50 (-5.0 degrees) is sent as the bytes 0xFF, 0xCE; the
  coordinator, whose \<open>int\<close> has 32 bits, shifts and ors them into 65486 without sign
  extension and stores 6548.6 degrees.
\<close>

theorem C3_negative_temperature_decoded_unsigned:
  "sint (temp_i16 env_minus5C) = - 50
   \<and> currentTemperature
        (handleI2CCommunication 500
          (fst (requestEvent (handleENVSensor 2500 (Some env_minus5C) uno_init))) mcu_init)
       = 6548.6"
  by (simp add: minus5_frame minus5_decode) (simp add: env_minus5C_def)

section \<open>Link health\<close>

lemma link_lines_step:
  "link_lines (handleI2CCommunication now rx s) =
     link_lines s @
       (if \<not> isUnoOnline s \<and> isUnoOnline (handleI2CCommunication now rx s) then [I2C_Online]
        else if isUnoOnline s \<and> \<not> isUnoOnline (handleI2CCommunication now rx s)
          then [I2C_Lost (of_nat (length rx))]
        else [])"
  by (simp add: handleI2CCommunication_def link_lines_def Let_def)

lemma online_after_poll:
  "now - lastI2CCheckMillis s \<ge> I2C_CHECK_INTERVAL_MS \<Longrightarrow>
   isUnoOnline (handleI2CCommunication now rx s) = (length rx = 10)"
  by (simp add: handleI2CCommunication_def Let_def)

lemma no_poll_before_interval:
  "\<not> now - lastI2CCheckMillis s \<ge> I2C_CHECK_INTERVAL_MS \<Longrightarrow>
   handleI2CCommunication now rx s = s"
  by (simp add: handleI2CCommunication_def)

lemma last_after:
  "lastI2CCheckMillis (handleI2CCommunication now rx s) =
     (if now - lastI2CCheckMillis s \<ge> I2C_CHECK_INTERVAL_MS then now else lastI2CCheckMillis s)"
  by (simp add: handleI2CCommunication_def Let_def)

lemma requests_after:
  "requests (handleI2CCommunication now rx s) =
     (if now - lastI2CCheckMillis s \<ge> I2C_CHECK_INTERVAL_MS then requests s + 1 else requests s)"
  by (simp add: handleI2CCommunication_def Let_def)

lemma four_polls:
  assumes "length ok1 = 10" "length ok2 = 10" "length e1 \<noteq> 10" "length e2 \<noteq> 10"
  shows "link_lines (run_polls [(500, ok1), (1000, e1), (1500, e2), (2000, ok2)] mcu_init)
           = [I2C_Online, I2C_Lost (of_nat (length e1)), I2C_Online]"
    and "map isUnoOnline
           [run_polls [(500, ok1)] mcu_init,
            run_polls [(500, ok1), (1000, e1)] mcu_init,
            run_polls [(500, ok1), (1000, e1), (1500, e2)] mcu_init,
            run_polls [(500, ok1), (1000, e1), (1500, e2), (2000, ok2)] mcu_init]
           = [True, False, False, True]"
proof -
  let ?s1 = "handleI2CCommunication 500 ok1 mcu_init"
  let ?s2 = "handleI2CCommunication 1000 e1 ?s1"
  let ?s3 = "handleI2CCommunication 1500 e2 ?s2"
  let ?s4 = "handleI2CCommunication 2000 ok2 ?s3"
  have l1: "lastI2CCheckMillis ?s1 = 500"
    by (simp add: last_after mcu_init_def I2C_CHECK_INTERVAL_MS_def)
  have l2: "lastI2CCheckMillis ?s2 = 1000"
    by (simp add: last_after [of 1000] l1 I2C_CHECK_INTERVAL_MS_def)
  have l3: "lastI2CCheckMillis ?s3 = 1500"
    by (simp add: last_after [of 1500] l2 I2C_CHECK_INTERVAL_MS_def)
  have o1: "isUnoOnline ?s1"
    using assms by (simp add: online_after_poll mcu_init_def I2C_CHECK_INTERVAL_MS_def)
  have o2: "\<not> isUnoOnline ?s2"
    using assms by (simp add: online_after_poll [where now = 1000] l1 I2C_CHECK_INTERVAL_MS_def)
  have o3: "\<not> isUnoOnline ?s3"
    using assms by (simp add: online_after_poll [where now = 1500] l2 I2C_CHECK_INTERVAL_MS_def)
  have o4: "isUnoOnline ?s4"
    using assms by (simp add: online_after_poll [where now = 2000] l3 I2C_CHECK_INTERVAL_MS_def)
  have k0: "link_lines mcu_init = []" "\<not> isUnoOnline mcu_init"
    by (simp_all add: link_lines_def mcu_init_def)
  have k1: "link_lines ?s1 = [I2C_Online]"
    by (simp add: link_lines_step [of 500] o1 k0)
  have k2: "link_lines ?s2 = [I2C_Online, I2C_Lost (of_nat (length e1))]"
    by (simp add: link_lines_step [of 1000] o1 o2 k1)
  have k3: "link_lines ?s3 = [I2C_Online, I2C_Lost (of_nat (length e1))]"
    by (simp add: link_lines_step [of 1500] o2 o3 k2)
  have k4: "link_lines ?s4 = [I2C_Online, I2C_Lost (of_nat (length e1)), I2C_Online]"
    by (simp add: link_lines_step [of 2000] o3 o4 k3)
  show "link_lines (run_polls [(500, ok1), (1000, e1), (1500, e2), (2000, ok2)] mcu_init)
           = [I2C_Online, I2C_Lost (of_nat (length e1)), I2C_Online]"
    using k4 by simp
  show "map isUnoOnline
           [run_polls [(500, ok1)] mcu_init,
            run_polls [(500, ok1), (1000, e1)] mcu_init,
            run_polls [(500, ok1), (1000, e1), (1500, e2)] mcu_init,
            run_polls [(500, ok1), (1000, e1), (1500, e2), (2000, ok2)] mcu_init]
           = [True, False, False, True]"
    using o1 o2 o3 o4 by simp
qed

lemma repeated_outcome_silent:
  assumes "now1 - lastI2CCheckMillis s \<ge> I2C_CHECK_INTERVAL_MS"
    and "(length rx1 = 10) = (length rx2 = 10)"
  shows "link_lines (handleI2CCommunication now2 rx2 (handleI2CCommunication now1 rx1 s))
           = link_lines (handleI2CCommunication now1 rx1 s)"
proof (cases "now2 - lastI2CCheckMillis (handleI2CCommunication now1 rx1 s)
                \<ge> I2C_CHECK_INTERVAL_MS")
  case True
  then show ?thesis
    using assms by (simp add: link_lines_step [of now2] online_after_poll)
next
  case False
  then show ?thesis by (simp add: no_poll_before_interval)
qed

text \<open>
  C4, as stated, fails: from the offline start, the polls at 500, 1000, 1500 and
  2000 ms with the outcomes well-formed, empty, empty, well-formed print three link
  lines, not at most two.
\<close>

theorem C4_three_link_lines:
  "\<not> length (link_lines
        (run_polls [(500, idle_payload), (1000, []), (1500, []), (2000, idle_payload)]
          mcu_init)) \<le> 2"
  using four_polls(1)
    [where ?ok1.0 = idle_payload and ?ok2.0 = idle_payload and ?e1.0 = "[]" and ?e2.0 = "[]"]
  by (simp add: idle_payload_def I2C_PACKET_SIZE_def)

text \<open>
  C4, amended. From the offline start, four polls with the outcomes well-formed,
  malformed, malformed, well-formed take the link through online, offline, offline,
  online, which is three changes of state, and print exactly three link lines: gain,
  loss with the byte count of the first malformed answer, gain. In general a pass of
  the handler prints a gain line exactly when it takes the link from offline to online,
  a loss line exactly when it takes it from online to offline, and no link line
  otherwise; so after a poll, a pass whose outcome is of the same class prints no
  link line.
\<close>

theorem C4_edge_triggered_link_log:
  "(length ok1 = 10 \<and> length ok2 = 10 \<and> length e1 \<noteq> 10 \<and> length e2 \<noteq> 10 \<longrightarrow>
      link_lines (run_polls [(500, ok1), (1000, e1), (1500, e2), (2000, ok2)] mcu_init)
        = [I2C_Online, I2C_Lost (of_nat (length e1)), I2C_Online]
      \<and> map isUnoOnline
           [run_polls [(500, ok1)] mcu_init,
            run_polls [(500, ok1), (1000, e1)] mcu_init,
            run_polls [(500, ok1), (1000, e1), (1500, e2)] mcu_init,
            run_polls [(500, ok1), (1000, e1), (1500, e2), (2000, ok2)] mcu_init]
        = [True, False, False, True])
   \<and> link_lines (handleI2CCommunication now rx s) =
       link_lines s @
         (if \<not> isUnoOnline s \<and> isUnoOnline (handleI2CCommunication now rx s)
            then [I2C_Online]
          else if isUnoOnline s \<and> \<not> isUnoOnline (handleI2CCommunication now rx s)
            then [I2C_Lost (of_nat (length rx))]
          else [])
   \<and> (now1 - lastI2CCheckMillis s \<ge> I2C_CHECK_INTERVAL_MS
        \<and> (length rx1 = 10) = (length rx2 = 10) \<longrightarrow>
        link_lines (handleI2CCommunication now2 rx2 (handleI2CCommunication now1 rx1 s))
          = link_lines (handleI2CCommunication now1 rx1 s))"
  using four_polls [where ?ok1.0 = ok1 and ?ok2.0 = ok2 and ?e1.0 = e1 and ?e2.0 = e2]
    link_lines_step [where now = now and rx = rx and s = s]
    repeated_outcome_silent
      [where s = s and ?now1.0 = now1 and ?rx1.0 = rx1 and ?rx2.0 = rx2 and ?now2.0 = now2]
  by blast

theorem C4_edge_triggered_link_log_witness:
  "length idle_payload = 10 \<and> length ([] :: byte list) \<noteq> 10
   \<and> (500 :: 32 word) - lastI2CCheckMillis mcu_init \<ge> I2C_CHECK_INTERVAL_MS
   \<and> link_lines
        (run_polls [(500, idle_payload), (1000, []), (1500, []), (2000, idle_payload)] mcu_init)
       = [I2C_Online, I2C_Lost 0, I2C_Online]
   \<and> link_lines (handleI2CCommunication 1000 [] (handleI2CCommunication 500 [] mcu_init))
       = link_lines (handleI2CCommunication 500 [] mcu_init)"
  using C4_edge_triggered_link_log
    [where ?ok1.0 = idle_payload and ?ok2.0 = idle_payload and ?e1.0 = "[]" and ?e2.0 = "[]"
       and s = mcu_init and ?now1.0 = 500 and ?rx1.0 = "[]" and ?rx2.0 = "[]"
       and ?now2.0 = 1000]
  by (simp add: idle_payload_def I2C_PACKET_SIZE_def mcu_init_def I2C_CHECK_INTERVAL_MS_def)

text \<open>
  C5. A poll that is due and returns other than 10 bytes leaves the link offline and
  the card identifier at \<open>N/A\<close>, and leaves temperature, humidity and light as they
  were. The handler has no error result: it returns the updated state.
\<close>

theorem C5_malformed_length:
  "now - lastI2CCheckMillis s \<ge> I2C_CHECK_INTERVAL_MS \<Longrightarrow> length rx \<noteq> 10 \<Longrightarrow>
   \<not> isUnoOnline (handleI2CCommunication now rx s)
   \<and> lastRfidFromUno (handleI2CCommunication now rx s) = ''N/A''
   \<and> currentTemperature (handleI2CCommunication now rx s) = currentTemperature s
   \<and> currentHumidity (handleI2CCommunication now rx s) = currentHumidity s
   \<and> lightLevel (handleI2CCommunication now rx s) = lightLevel s"
  by (simp add: handleI2CCommunication_def Let_def)

theorem C5_malformed_length_witness:
  "(1000 :: 32 word) - lastI2CCheckMillis mcu_after_env \<ge> I2C_CHECK_INTERVAL_MS
   \<and> length [0x02 :: byte, 0x00, 0xFA] \<noteq> 10
   \<and> isUnoOnline mcu_after_env
   \<and> \<not> isUnoOnline (handleI2CCommunication 1000 [0x02, 0x00, 0xFA] mcu_after_env)
   \<and> lastRfidFromUno (handleI2CCommunication 1000 [0x02, 0x00, 0xFA] mcu_after_env) = ''N/A''
   \<and> currentTemperature (handleI2CCommunication 1000 [0x02, 0x00, 0xFA] mcu_after_env) = 25
   \<and> currentHumidity (handleI2CCommunication 1000 [0x02, 0x00, 0xFA] mcu_after_env) = 50
   \<and> lightLevel (handleI2CCommunication 1000 [0x02, 0x00, 0xFA] mcu_after_env) = 100"
proof -
  have due: "(1000 :: 32 word) - lastI2CCheckMillis mcu_after_env \<ge> I2C_CHECK_INTERVAL_MS"
    by (simp add: mcu_after_env_def last_after mcu_init_def I2C_CHECK_INTERVAL_MS_def)
  have on: "isUnoOnline mcu_after_env"
    by (simp add: mcu_after_env_def online_after_poll mcu_init_def I2C_CHECK_INTERVAL_MS_def)
  show ?thesis
    using C5_malformed_length [OF due, where rx = "[0x02, 0x00, 0xFA]"] due on decode_25C
    by simp
qed

section \<open>Card identifier rendering\<close>

lemma upper_table: "map toupper ''0123456789abcdef'' = ''0123456789ABCDEF''"
  by code_simp

lemma toupper_zero: "toupper CHR ''0'' = CHR ''0''"
  by code_simp

lemma toupper_hex_digit:
  assumes "d < 16"
  shows "toupper (hex_digit d) = ''0123456789ABCDEF'' ! d"
proof -
  from assms have "d < length ''0123456789abcdef''" by simp
  then have "map toupper ''0123456789abcdef'' ! d = toupper (''0123456789abcdef'' ! d)"
    by (rule nth_map)
  then show ?thesis by (simp only: upper_table hex_digit_def)
qed

lemma upt_1_5: "[Suc 0 ..< 5] = [Suc 0, 2, 3, 4]"
  by (simp add: upt_rec)

lemma uid_append_upper:
  "toUpperCase (uid_append rx i str) = toUpperCase str @ hex2_upper (rx ! i)"
proof (cases "rx ! i < 0x10")
  case True
  then have u: "unat (rx ! i) < 16" by (simp add: word_less_nat_alt)
  then show ?thesis using True
    by (simp add: toUpperCase_def uid_append_def String_HEX_def hex2_upper_def
        toupper_hex_digit toupper_zero)
next
  case False
  then have u: "\<not> unat (rx ! i) < 16" by (simp add: word_less_nat_alt)
  have d: "unat (rx ! i) div 16 < 16"
    using unsigned_less [of "rx ! i", where ?'a = nat] by simp
  show ?thesis using False u d
    by (simp add: toUpperCase_def uid_append_def String_HEX_def hex2_upper_def
        toupper_hex_digit)
qed

lemma uid_string_upper:
  "toUpperCase (fold (uid_append rx) [Suc 0 ..< 5] []) =
     concat (map hex2_upper [rx ! 1, rx ! 2, rx ! 3, rx ! 4])"
  by (simp add: upt_1_5 uid_append_upper) (simp add: toUpperCase_def)

text \<open>
  C9. When a poll is due and returns 10 bytes tagged as a card event, the identifier
  stored is the concatenation, in order, of bytes 1 to 4 each rendered as two
  upper-case hexadecimal digits with a leading zero where needed.
\<close>

theorem C9_card_hex:
  "now - lastI2CCheckMillis s \<ge> I2C_CHECK_INTERVAL_MS \<Longrightarrow> length rx = 10 \<Longrightarrow>
   rx ! 0 = FLAG_RFID_NEW \<Longrightarrow>
   lastRfidFromUno (handleI2CCommunication now rx s)
     = concat (map hex2_upper [rx ! 1, rx ! 2, rx ! 3, rx ! 4])"
  by (simp add: handleI2CCommunication_def Let_def FLAG_RFID_NEW_def uid_string_upper)

theorem C9_card_hex_witness:
  "(500 :: 32 word) - lastI2CCheckMillis mcu_init \<ge> I2C_CHECK_INTERVAL_MS
   \<and> length [FLAG_RFID_NEW, 0xDE, 0xAD, 0xBE, 0xEF, 0, 0, 0, 0, 0] = 10
   \<and> lastRfidFromUno
        (handleI2CCommunication 500 [FLAG_RFID_NEW, 0xDE, 0xAD, 0xBE, 0xEF, 0, 0, 0, 0, 0] mcu_init)
       = ''DEADBEEF''"
  using C9_card_hex
    [where now = 500 and s = mcu_init
       and rx = "[FLAG_RFID_NEW, 0xDE, 0xAD, 0xBE, 0xEF, 0, 0, 0, 0, 0]"]
  by (simp add: mcu_init_def I2C_CHECK_INTERVAL_MS_def hex2_upper_def)

section \<open>Interval gate\<close>

lemma tick_diff:
  "(t0 + 100 * of_nat (Suc n) :: 32 word) - (t0 + 100 * of_nat (5 * (n div 5)))
     = of_nat (100 * (n mod 5 + 1))"
proof -
  have "Suc n = 5 * (n div 5) + (n mod 5 + 1)" by simp
  then have "(of_nat (Suc n) :: 32 word) = of_nat (5 * (n div 5)) + of_nat (n mod 5 + 1)"
    by (metis of_nat_add)
  then show ?thesis by (simp add: algebra_simps)
qed

lemma tick_due: "((of_nat (100 * (n mod 5 + 1)) :: 32 word) \<ge> 500) = (n mod 5 = 4)"
proof -
  have "100 * (n mod 5 + 1) \<le> 500" by simp
  then have "100 * (n mod 5 + 1) < 2 ^ LENGTH(32)" by simp
  then have "unat (of_nat (100 * (n mod 5 + 1)) :: 32 word) = 100 * (n mod 5 + 1)"
    by (rule of_nat_inverse [OF refl])
  then show ?thesis by (simp add: word_le_nat_alt) arith
qed

lemma run_ticks_inv:
  assumes "lastI2CCheckMillis s = t0"
  shows "lastI2CCheckMillis (run_ticks t0 bus n s) = t0 + 100 * of_nat (5 * (n div 5))
         \<and> requests (run_ticks t0 bus n s) = requests s + n div 5"
proof (induction n)
  case 0
  show ?case using assms by simp
next
  case (Suc n)
  let ?s = "run_ticks t0 bus n s"
  from Suc have last: "lastI2CCheckMillis ?s = t0 + 100 * of_nat (5 * (n div 5))"
    and req: "requests ?s = requests s + n div 5" by simp_all
  have due: "(t0 + 100 * of_nat (Suc n) - lastI2CCheckMillis ?s \<ge> I2C_CHECK_INTERVAL_MS)
               = (n mod 5 = 4)"
    unfolding last tick_diff I2C_CHECK_INTERVAL_MS_def by (rule tick_due)
  show ?case
  proof (cases "n mod 5 = 4")
    case True
    then have d: "Suc n div 5 = n div 5 + 1" by arith
    from True have e: "5 * (Suc n div 5) = Suc n" by arith
    have "lastI2CCheckMillis (run_ticks t0 bus (Suc n) s) = t0 + 100 * of_nat (Suc n)"
      using True due by (simp add: last_after)
    moreover have "requests (run_ticks t0 bus (Suc n) s) = requests s + Suc n div 5"
      using True due by (simp add: requests_after req d)
    ultimately show ?thesis by (simp only: e)
  next
    case False
    then have d: "Suc n div 5 = n div 5" by arith
    have "lastI2CCheckMillis (run_ticks t0 bus (Suc n) s) = t0 + 100 * of_nat (5 * (n div 5))"
      using False due by (simp add: last_after last)
    moreover have "requests (run_ticks t0 bus (Suc n) s) = requests s + n div 5"
      using False due by (simp add: requests_after req)
    ultimately show ?thesis by (simp only: d)
  qed
qed

lemma run_ticks_step:
  assumes "lastI2CCheckMillis s = t0"
  shows "requests (run_ticks t0 bus (Suc n) s)
           = requests (run_ticks t0 bus n s) + (if 5 dvd Suc n then 1 else 0)"
proof -
  have "Suc n div 5 = n div 5 + (if 5 dvd Suc n then 1 else 0)" by presburger
  then show ?thesis
    using run_ticks_inv [OF assms, where bus = bus and n = "Suc n"]
      run_ticks_inv [OF assms, where bus = bus and n = n]
    by simp
qed

lemma wifi_gate:
  "lastWifiCheckMillis (handleWiFiReconnect now wl s) =
     (if now - lastWifiCheckMillis s \<ge> WIFI_RECONNECT_INTERVAL_MS then now
      else lastWifiCheckMillis s)
   \<and> (\<not> now - lastWifiCheckMillis s \<ge> WIFI_RECONNECT_INTERVAL_MS \<longrightarrow>
        handleWiFiReconnect now wl s = s)"
  by (simp add: handleWiFiReconnect_def Let_def)

lemma wifi_body:
  "reconnects (handleWiFiReconnect now wl s) =
     (if now - lastWifiCheckMillis s \<ge> WIFI_RECONNECT_INTERVAL_MS \<and> \<not> wl
      then reconnects s + 1 else reconnects s)
   \<and> serial (handleWiFiReconnect now wl s) =
     (if now - lastWifiCheckMillis s \<ge> WIFI_RECONNECT_INTERVAL_MS \<and> \<not> wl
      then serial s @ [WiFi_Reconnecting] else serial s)"
  by (simp add: handleWiFiReconnect_def Let_def)

lemma blink_gate:
  "previousBlinkMillis (handleBlink now s) =
     (if isBlinking s \<and> now - previousBlinkMillis s \<ge> ucast (blinkInterval s) then now
      else previousBlinkMillis s)
   \<and> blinkLedState (handleBlink now s) =
     (if isBlinking s \<and> now - previousBlinkMillis s \<ge> ucast (blinkInterval s)
      then lnot (blinkLedState s) else blinkLedState s)
   \<and> (\<not> (isBlinking s \<and> now - previousBlinkMillis s \<ge> ucast (blinkInterval s)) \<longrightarrow>
        handleBlink now s = s)"
  by (simp add: handleBlink_def Let_def)

lemma blink_drive:
  "blink_writes (handleBlink now s) =
     (if isBlinking s \<and> now - previousBlinkMillis s \<ge> ucast (blinkInterval s)
      then blink_writes s @
        (if blinkPin s = chr_G \<or> blinkPin s = chr_g
           then [(LED_G_PIN, lnot (blinkLedState s))]
         else if blinkPin s = chr_B \<or> blinkPin s = chr_b
           then [(LED_B_PIN, lnot (blinkLedState s))]
         else if blinkPin s = chr_A \<or> blinkPin s = chr_a
           then [(LED_G_PIN, lnot (blinkLedState s)), (LED_B_PIN, lnot (blinkLedState s))]
         else [])
      else blink_writes s)"
  by (simp add: handleBlink_def Let_def)

lemma rfid_gate:
  "lastRfidCheckMillis (handleRFID now picc u) =
     (if now - lastRfidCheckMillis u \<ge> RFID_CHECK_INTERVAL_MS then now
      else lastRfidCheckMillis u)
   \<and> (\<not> now - lastRfidCheckMillis u \<ge> RFID_CHECK_INTERVAL_MS \<longrightarrow>
        handleRFID now picc u = u)
   \<and> newCardDataAvailable (handleRFID now picc u) =
     (newCardDataAvailable u
      \<or> now - lastRfidCheckMillis u \<ge> RFID_CHECK_INTERVAL_MS
        \<and> (case picc of None \<Rightarrow> False | Some c \<Rightarrow> 0 < uid_size c))"
  by (auto simp: handleRFID_def Let_def not_less split: option.splits)

lemma env_gate:
  "lastENVCheckMillis (handleENVSensor now env u) =
     (if now - lastENVCheckMillis u \<ge> ENV_CHECK_INTERVAL_MS then now
      else lastENVCheckMillis u)
   \<and> (\<not> now - lastENVCheckMillis u \<ge> ENV_CHECK_INTERVAL_MS \<longrightarrow>
        handleENVSensor now env u = u)
   \<and> newENVDataAvailable (handleENVSensor now env u) =
     (newENVDataAvailable u
      \<or> now - lastENVCheckMillis u \<ge> ENV_CHECK_INTERVAL_MS \<and> env \<noteq> None)"
  by (auto simp: handleENVSensor_def Let_def not_less split: option.splits)

text \<open>The same passes on a clock that starts 200 ms before it wraps to 0.\<close>

lemma ticks_across_wraparound:
  "lastI2CCheckMillis (mcu_init\<lparr>lastI2CCheckMillis := 0xFFFFFF38\<rparr>) = 0xFFFFFF38
   \<and> (0xFFFFFF38 :: 32 word) + 100 * of_nat (5 :: nat) = 300
   \<and> requests (run_ticks 0xFFFFFF38 (\<lambda>k. []) 4 (mcu_init\<lparr>lastI2CCheckMillis := 0xFFFFFF38\<rparr>)) = 0
   \<and> requests (run_ticks 0xFFFFFF38 (\<lambda>k. []) 5 (mcu_init\<lparr>lastI2CCheckMillis := 0xFFFFFF38\<rparr>)) = 1
   \<and> lastI2CCheckMillis
        (run_ticks 0xFFFFFF38 (\<lambda>k. []) 5 (mcu_init\<lparr>lastI2CCheckMillis := 0xFFFFFF38\<rparr>)) = 300"
  using run_ticks_inv
      [where s = "mcu_init\<lparr>lastI2CCheckMillis := 0xFFFFFF38\<rparr>" and ?t0.0 = "0xFFFFFF38"
         and bus = "\<lambda>k. []" and n = 4]
    run_ticks_inv
      [where s = "mcu_init\<lparr>lastI2CCheckMillis := 0xFFFFFF38\<rparr>" and ?t0.0 = "0xFFFFFF38"
         and bus = "\<lambda>k. []" and n = 5]
  by (simp add: mcu_init_def)

text \<open>
  C7. The bus poll is made in a pass exactly when the 32-bit difference between the
  clock and the time of the last poll is at least 500, and that time is then set to
  the clock; otherwise the pass changes nothing. The other gated tasks behave the same
  way, each with its own interval and time stamp. The reconnect task (10000) stamps
  when due, and exactly when it is due and the network is down it calls
  \<open>WiFi.reconnect\<close> once and prints its line. The blink task, which is active only
  while the indicator is blinking, stamps, flips the LED state and drives the selected
  pin or pins exactly when the difference is at least the blink interval. The card task (200) and
  the sensor task (2500) of the peripheral stamp exactly when due, and an event of
  their kind is pending afterwards exactly when one was pending before or the task was
  due and had a sample (a card with a non-empty identifier, a reading without NaN). A
  task that is not due changes nothing. On a clock that starts at any 32-bit value
  \<open>t0\<close>, where the last poll time also stands, and advances by 100 per pass, the poll
  is made in pass \<open>k\<close> exactly when \<open>k\<close> is a multiple of 5, that is at \<open>t0\<close> plus 500,
  1000, 1500 and so on, for any number of passes and so across any wrap of the clock.
\<close>

theorem C7_interval_gate:
  "requests (handleI2CCommunication now rx s) =
     (if now - lastI2CCheckMillis s \<ge> I2C_CHECK_INTERVAL_MS then requests s + 1
      else requests s)
   \<and> lastI2CCheckMillis (handleI2CCommunication now rx s) =
     (if now - lastI2CCheckMillis s \<ge> I2C_CHECK_INTERVAL_MS then now
      else lastI2CCheckMillis s)
   \<and> (\<not> now - lastI2CCheckMillis s \<ge> I2C_CHECK_INTERVAL_MS \<longrightarrow>
        handleI2CCommunication now rx s = s)
   \<and> lastWifiCheckMillis (handleWiFiReconnect now wl s) =
     (if now - lastWifiCheckMillis s \<ge> WIFI_RECONNECT_INTERVAL_MS then now
      else lastWifiCheckMillis s)
   \<and> (\<not> now - lastWifiCheckMillis s \<ge> WIFI_RECONNECT_INTERVAL_MS \<longrightarrow>
        handleWiFiReconnect now wl s = s)
   \<and> (lastI2CCheckMillis s = t0 \<longrightarrow>
        requests (run_ticks t0 bus n s) = requests s + n div 5
        \<and> lastI2CCheckMillis (run_ticks t0 bus n s) = t0 + 100 * of_nat (5 * (n div 5))
        \<and> requests (run_ticks t0 bus (Suc n) s)
            = requests (run_ticks t0 bus n s) + (if 5 dvd Suc n then 1 else 0))
   \<and> reconnects (handleWiFiReconnect now wl s) =
     (if now - lastWifiCheckMillis s \<ge> WIFI_RECONNECT_INTERVAL_MS \<and> \<not> wl
      then reconnects s + 1 else reconnects s)
   \<and> serial (handleWiFiReconnect now wl s) =
     (if now - lastWifiCheckMillis s \<ge> WIFI_RECONNECT_INTERVAL_MS \<and> \<not> wl
      then serial s @ [WiFi_Reconnecting] else serial s)
   \<and> previousBlinkMillis (handleBlink now s) =
     (if isBlinking s \<and> now - previousBlinkMillis s \<ge> ucast (blinkInterval s) then now
      else previousBlinkMillis s)
   \<and> blinkLedState (handleBlink now s) =
     (if isBlinking s \<and> now - previousBlinkMillis s \<ge> ucast (blinkInterval s)
      then lnot (blinkLedState s) else blinkLedState s)
   \<and> (\<not> (isBlinking s \<and> now - previousBlinkMillis s \<ge> ucast (blinkInterval s)) \<longrightarrow>
        handleBlink now s = s)
   \<and> blink_writes (handleBlink now s) =
     (if isBlinking s \<and> now - previousBlinkMillis s \<ge> ucast (blinkInterval s)
      then blink_writes s @
        (if blinkPin s = chr_G \<or> blinkPin s = chr_g
           then [(LED_G_PIN, lnot (blinkLedState s))]
         else if blinkPin s = chr_B \<or> blinkPin s = chr_b
           then [(LED_B_PIN, lnot (blinkLedState s))]
         else if blinkPin s = chr_A \<or> blinkPin s = chr_a
           then [(LED_G_PIN, lnot (blinkLedState s)), (LED_B_PIN, lnot (blinkLedState s))]
         else [])
      else blink_writes s)
   \<and> lastRfidCheckMillis (handleRFID now picc u) =
     (if now - lastRfidCheckMillis u \<ge> RFID_CHECK_INTERVAL_MS then now
      else lastRfidCheckMillis u)
   \<and> (\<not> now - lastRfidCheckMillis u \<ge> RFID_CHECK_INTERVAL_MS \<longrightarrow>
        handleRFID now picc u = u)
   \<and> newCardDataAvailable (handleRFID now picc u) =
     (newCardDataAvailable u
      \<or> now - lastRfidCheckMillis u \<ge> RFID_CHECK_INTERVAL_MS
        \<and> (case picc of None \<Rightarrow> False | Some c \<Rightarrow> 0 < uid_size c))
   \<and> lastENVCheckMillis (handleENVSensor now env u) =
     (if now - lastENVCheckMillis u \<ge> ENV_CHECK_INTERVAL_MS then now
      else lastENVCheckMillis u)
   \<and> (\<not> now - lastENVCheckMillis u \<ge> ENV_CHECK_INTERVAL_MS \<longrightarrow>
        handleENVSensor now env u = u)
   \<and> newENVDataAvailable (handleENVSensor now env u) =
     (newENVDataAvailable u
      \<or> now - lastENVCheckMillis u \<ge> ENV_CHECK_INTERVAL_MS \<and> env \<noteq> None)"
  using requests_after [where now = now and rx = rx and s = s]
    last_after [where now = now and rx = rx and s = s]
    no_poll_before_interval [where now = now and rx = rx and s = s]
    wifi_gate [where now = now and wl = wl and s = s]
    run_ticks_inv [where s = s and ?t0.0 = t0 and bus = bus and n = n]
    run_ticks_step [where s = s and ?t0.0 = t0 and bus = bus and n = n]
    wifi_body [where now = now and wl = wl and s = s]
    blink_gate [where now = now and s = s]
    blink_drive [where now = now and s = s]
    rfid_gate [where now = now and picc = picc and u = u]
    env_gate [where now = now and env = env and u = u]
  by blast

theorem C7_interval_gate_witness:
  "\<not> (100 :: 32 word) - lastI2CCheckMillis mcu_blinking \<ge> I2C_CHECK_INTERVAL_MS
   \<and> handleI2CCommunication 100 [] mcu_blinking = mcu_blinking
   \<and> \<not> (100 :: 32 word) - lastWifiCheckMillis mcu_blinking \<ge> WIFI_RECONNECT_INTERVAL_MS
   \<and> handleWiFiReconnect 100 False mcu_blinking = mcu_blinking
   \<and> lastI2CCheckMillis mcu_blinking = 0
   \<and> requests (run_ticks 0 (\<lambda>k. []) 4 mcu_blinking) = 0
   \<and> requests (run_ticks 0 (\<lambda>k. []) 5 mcu_blinking) = 1
   \<and> lastI2CCheckMillis (run_ticks 0 (\<lambda>k. []) 4 mcu_blinking) = 0
   \<and> isBlinking mcu_blinking \<and> blinkPin mcu_blinking = chr_G
   \<and> \<not> (100 :: 32 word) - previousBlinkMillis mcu_blinking \<ge> ucast (blinkInterval mcu_blinking)
   \<and> handleBlink 100 mcu_blinking = mcu_blinking
   \<and> \<not> (100 :: 32 word) - lastRfidCheckMillis uno_init \<ge> RFID_CHECK_INTERVAL_MS
   \<and> handleRFID 100 (Some card_DEADBEEF) uno_init = uno_init
   \<and> \<not> (100 :: 32 word) - lastENVCheckMillis uno_init \<ge> ENV_CHECK_INTERVAL_MS
   \<and> handleENVSensor 100 (Some env_25C) uno_init = uno_init
   \<and> (10000 :: 32 word) - lastWifiCheckMillis mcu_blinking \<ge> WIFI_RECONNECT_INTERVAL_MS
   \<and> lastWifiCheckMillis (handleWiFiReconnect 10000 False mcu_blinking) = 10000
   \<and> reconnects (handleWiFiReconnect 10000 False mcu_blinking) = 1
   \<and> serial (handleWiFiReconnect 10000 False mcu_blinking) = [WiFi_Reconnecting]
   \<and> previousBlinkMillis (handleBlink 10000 mcu_blinking) = 10000
   \<and> blinkLedState (handleBlink 10000 mcu_blinking) = LOW
   \<and> blink_writes (handleBlink 10000 mcu_blinking) = [(LED_G_PIN, LOW)]
   \<and> lastRfidCheckMillis (handleRFID 10000 (Some card_DEADBEEF) uno_init) = 10000
   \<and> newCardDataAvailable (handleRFID 10000 (Some card_DEADBEEF) uno_init)
   \<and> lastENVCheckMillis (handleENVSensor 10000 (Some env_25C) uno_init) = 10000
   \<and> newENVDataAvailable (handleENVSensor 10000 (Some env_25C) uno_init)
   \<and> requests (handleI2CCommunication 10000 [] mcu_blinking) = 1
   \<and> \<not> isBlinking mcu_init
   \<and> (10000 :: 32 word) - previousBlinkMillis mcu_init \<ge> ucast (blinkInterval mcu_init)
   \<and> handleBlink 10000 mcu_init = mcu_init"
  using C7_interval_gate
    [where now = 100 and rx = "[]" and s = mcu_blinking and wl = False and ?t0.0 = 0
       and bus = "\<lambda>k. []" and n = 4 and u = uno_init and picc = "Some card_DEADBEEF"
       and env = "Some env_25C"]
    C7_interval_gate
    [where now = 10000 and rx = "[]" and s = mcu_blinking and wl = False and ?t0.0 = 0
       and bus = "\<lambda>k. []" and n = 4 and u = uno_init and picc = "Some card_DEADBEEF"
       and env = "Some env_25C"]
    C7_interval_gate
    [where now = 10000 and rx = "[]" and s = mcu_init and wl = False and ?t0.0 = 0
       and bus = "\<lambda>k. []" and n = 4 and u = uno_init and picc = "Some card_DEADBEEF"
       and env = "Some env_25C"]
  by (simp add: mcu_blinking_def startBlinkingLED_def mcu_init_def uno_init_def
      I2C_CHECK_INTERVAL_MS_def WIFI_RECONNECT_INTERVAL_MS_def RFID_CHECK_INTERVAL_MS_def
      ENV_CHECK_INTERVAL_MS_def card_DEADBEEF_def chr_G_def HIGH_def LOW_def lnot_def)

section \<open>Command channel\<close>

lemmas cmd_defs = receiveEvent_def handleCommands_def chr_P_def chr_plus_def chr_minus_def

text \<open>
  C6. From any peripheral state, receiving the play-track command with track byte 5
  and then the volume-up command, with no dispatch in between, leaves the single slot
  pending with the volume-up tag and parameter 0; no player call has been made yet,
  and the next dispatch makes exactly one call, volume up, so the play-track command
  is lost.
\<close>

theorem C6_last_writer_wins:
  "IsCMD (receiveEvent [chr_plus] (receiveEvent [chr_P, 5] s))
   \<and> command_to_run (receiveEvent [chr_plus] (receiveEvent [chr_P, 5] s)) = chr_plus
   \<and> command_param (receiveEvent [chr_plus] (receiveEvent [chr_P, 5] s)) = 0
   \<and> dfplayer (receiveEvent [chr_plus] (receiveEvent [chr_P, 5] s)) = dfplayer s
   \<and> dfplayer (handleCommands (receiveEvent [chr_plus] (receiveEvent [chr_P, 5] s)))
       = dfplayer s @ [VolumeUp]
   \<and> \<not> IsCMD (handleCommands (receiveEvent [chr_plus] (receiveEvent [chr_P, 5] s)))"
  by (simp add: cmd_defs)

text \<open>
  C8. A play-track transaction that delivers only the tag byte leaves the stored
  track parameter at its previous value, stores the tag and marks the slot pending,
  so the next dispatch plays the stale track; when a second byte is present it is the
  one stored.
\<close>

theorem C8_play_without_track_keeps_param:
  "command_param (receiveEvent [chr_P] s) = command_param s
   \<and> command_to_run (receiveEvent [chr_P] s) = chr_P
   \<and> IsCMD (receiveEvent [chr_P] s)
   \<and> dfplayer (handleCommands (receiveEvent [chr_P] s))
       = dfplayer s @ [Play (command_param s)]
   \<and> command_param (receiveEvent (chr_P # t # rest) s) = t"
  by (simp add: cmd_defs)

text \<open>
  C10. Every transaction with at least a tag byte stores that tag and marks the slot
  pending, whatever the tag is and whatever was pending before; when the tag is none
  of the three known ones the parameter is left alone and the dispatch makes no
  player call; in every case one dispatch clears the pending flag.
\<close>

theorem C10_unknown_tag:
  "IsCMD (receiveEvent (tag # rest) s)
   \<and> command_to_run (receiveEvent (tag # rest) s) = tag
   \<and> (tag \<noteq> chr_P \<and> tag \<noteq> chr_plus \<and> tag \<noteq> chr_minus \<longrightarrow>
        command_param (receiveEvent (tag # rest) s) = command_param s
        \<and> dfplayer (handleCommands (receiveEvent (tag # rest) s)) = dfplayer s)
   \<and> \<not> IsCMD (handleCommands (receiveEvent (tag # rest) s))
   \<and> \<not> IsCMD (handleCommands s)"
  by (simp add: cmd_defs Let_def split: list.split)

theorem C10_unknown_tag_witness:
  "(0x58 :: byte) \<noteq> chr_P \<and> (0x58 :: byte) \<noteq> chr_plus \<and> (0x58 :: byte) \<noteq> chr_minus
   \<and> IsCMD (receiveEvent [0x58] (receiveEvent [chr_P, 5] uno_init))
   \<and> command_to_run (receiveEvent [0x58] (receiveEvent [chr_P, 5] uno_init)) = 0x58
   \<and> command_param (receiveEvent [0x58] (receiveEvent [chr_P, 5] uno_init)) = 5
   \<and> dfplayer (handleCommands (receiveEvent [0x58] (receiveEvent [chr_P, 5] uno_init))) = []
   \<and> \<not> IsCMD (handleCommands (receiveEvent [0x58] (receiveEvent [chr_P, 5] uno_init)))"
  using C10_unknown_tag
    [where tag = "0x58" and rest = "[]" and s = "receiveEvent [chr_P, 5] uno_init"]
  by (simp add: cmd_defs uno_init_def)

end
